theory Spec2Isabelle
  imports Complex_Main
begin

section \<open>The lending environment (lending/environments/lending.py)\<close>

text \<open>
  A shallow embedding of the loan-decision state machine: the three state updaters
  (\<open>_CashUpdater\<close>, \<open>_ApplicantSampler\<close>, \<open>_CreditShift\<close>), the state record, and the
  environment's \<open>_state_init\<close>, \<open>reset\<close>, \<open>_is_done\<close> and \<open>_step_impl\<close>.

  Conventions of the embedding.
  \<^item> Python floats are idealised as \<^typ>\<open>real\<close>: arithmetic is exact, rounding is not
    modelled. The tolerance \<open>1e-6\<close> of the source is the real number \<open>1 / 1000000\<close>.
  \<^item> An updater mutates the state object in place and returns nothing; here it takes
    the state and returns the new one. An updater that can raise returns
    \<open>error + state\<close>, with \<open>Inl\<close> for the exception. \<open>_CreditShift.update\<close> assigns to
    the state only in its last statement, so a raise leaves the object as it was.
  \<^item> The random source \<open>np.random.RandomState\<close> is an abstract value of type \<open>'r\<close>;
    drawing from it returns the advanced source together with the draw.
  \<^item> The distributions (\<open>Distribution.sample\<close> of the population mixture, of a
    group's cluster mixture and of one cluster component) belong to modules that are
    not part of these sources. They are parameters of the model, collected in the
    record \<open>Sampling\<close>; every theorem holds for every choice of them.
  \<^item> The mixtures of the groups are separate values (no two groups share one mixture
    object), as the state owns a deep copy of the parameters.
\<close>

subsection \<open>Actions and exceptions\<close>

datatype LoanDecision = REJECT | ACCEPT

text \<open>The \<open>assert\<close> statements of \<open>_CreditShift.update\<close>, in the order of the source.\<close>

datatype assertion =
    GroupOutOfSync        \<comment> \<open>\<open>state.group_id == np.argmax(state.group)\<close>\<close>
  | SampledWrongGroup     \<comment> \<open>\<open>np.array_equal(group, state.group)\<close>\<close>
  | ArgmaxMismatch        \<comment> \<open>\<open>np.argmax(credit_score) == idx\<close>\<close>
  | NoMass                \<comment> \<open>\<open>cluster_probs[cluster_id] > 0\<close>\<close>
  | SumNotOne             \<comment> \<open>\<open>np.abs(np.sum(cluster_probs) - 1) < 1e-6\<close>\<close>
  | NegativeProb          \<comment> \<open>\<open>all([prob >= 0 for prob in cluster_probs])\<close>\<close>

datatype error =
    AssertionError assertion
  | IndexError            \<comment> \<open>a list index out of range\<close>
  | ValueError            \<comment> \<open>\<open>np.argmax\<close> of an empty sequence\<close>
  | PostTerminationStep   \<comment> \<open>\<open>step\<close> on a terminated environment\<close>

subsection \<open>The numpy operations the updaters use\<close>

text \<open>
  \<open>np.argmax\<close>: the index of the first occurrence of the maximum; an empty sequence
  raises \<open>ValueError\<close>. \<open>argmax_from xs i best v\<close> scans the rest \<open>xs\<close> of the array, whose
  first element has index \<open>i\<close>, with the best index and value found so far.
\<close>

fun argmax_from :: "'a::linorder list \<Rightarrow> nat \<Rightarrow> nat \<Rightarrow> 'a \<Rightarrow> nat" where
  "argmax_from [] i best v = best"
| "argmax_from (x # xs) i best v =
     (if v < x then argmax_from xs (Suc i) i x else argmax_from xs (Suc i) best v)"

definition np_argmax :: "'a::linorder list \<Rightarrow> error + nat" where
  "np_argmax xs = (case xs of [] \<Rightarrow> Inl ValueError | x # rest \<Rightarrow> Inr (argmax_from rest 1 0 x))"

text \<open>
  The applicant fields of the state are \<open>None\<close> until the first sample. numpy turns
  \<open>None\<close> into a zero-dimensional array, whose \<open>argmax\<close> is \<open>0\<close>.
\<close>

definition np_argmax_obj :: "'a::linorder list option \<Rightarrow> error + nat" where
  "np_argmax_obj a = (case a of None \<Rightarrow> Inr 0 | Some xs \<Rightarrow> np_argmax xs)"

text \<open>\<open>np.array_equal(a, b)\<close> with \<open>b\<close> possibly \<open>None\<close>: same shape and same elements.\<close>

definition np_array_equal :: "'a list \<Rightarrow> 'a list option \<Rightarrow> bool" where
  "np_array_equal a b = (case b of None \<Rightarrow> False | Some ys \<Rightarrow> a = ys)"

text \<open>\<open>np.clip(a, a_min, a_max)\<close> is \<open>minimum(a_max, maximum(a, a_min))\<close>, element by element.\<close>

definition np_clip :: "real list \<Rightarrow> real \<Rightarrow> real \<Rightarrow> real list" where
  "np_clip a a_min a_max = map (\<lambda>x. min a_max (max x a_min)) a"

text \<open>Python's truth value of an \<open>Optional[bool]\<close>: \<open>None\<close> is false.\<close>

definition truthy :: "bool option \<Rightarrow> bool" where
  "truthy b = (b = Some True)"

subsection \<open>Population model, parameters and state\<close>

text \<open>
  A \<open>Mixture\<close> has \<open>components\<close> and \<open>weights\<close>. The applicant distribution is a mixture
  over groups whose components are mixtures over credit clusters; \<open>'c\<close> is the type of
  a cluster's own distribution.
\<close>

datatype 'a Mixture = Mixture (components: "'a list") (weights: "real list")

record Applicant =
  features :: "real list"
  group :: "int list"
  will_default :: bool

record 'c Params =
  applicant_distribution :: "'c Mixture Mixture"
  bank_starting_cash :: real
  interest_rate :: real
  loan_amount :: real
  max_cash :: real
  min_observation :: real
  max_observation :: real
  cluster_shift_increment :: real

record ('c, 'r) State =
  rng :: 'r
  params :: "'c Params"
  bank_cash :: real
  applicant_features :: "real list option"
  group :: "int list option"
  group_id :: "nat option"
  will_default :: "bool option"

text \<open>The \<open>sample\<close> methods of the three levels of the population model.\<close>

record ('c, 'r) Sampling =
  sample_population :: "'c Mixture Mixture \<Rightarrow> 'r \<Rightarrow> Applicant \<times> 'r"
  sample_group :: "'c Mixture \<Rightarrow> 'r \<Rightarrow> Applicant \<times> 'r"
  sample_cluster :: "'c \<Rightarrow> 'r \<Rightarrow> Applicant \<times> 'r"

subsection \<open>\<open>_CashUpdater.update\<close> (lines 56-63)\<close>

definition CashUpdater_update :: "('c, 'r) State \<Rightarrow> LoanDecision \<Rightarrow> ('c, 'r) State" where
  "CashUpdater_update state action =
     (let params = params state in
      if action = REJECT then state
      else if truthy (State.will_default state)
        then state\<lparr>bank_cash := bank_cash state - loan_amount params\<rparr>
        else state\<lparr>bank_cash := bank_cash state + loan_amount params * interest_rate params\<rparr>)"

subsection \<open>\<open>_ApplicantSampler.update\<close> (lines 69-78)\<close>

text \<open>
  The action is unused (\<open>_state_init\<close> passes \<open>None\<close>), so the model leaves its type open.
  Sampling advances \<open>state.rng\<close> in place.
\<close>

definition ApplicantSampler_update ::
  "('c, 'r) Sampling \<Rightarrow> ('c, 'r) State \<Rightarrow> 'a \<Rightarrow> error + ('c, 'r) State" where
  "ApplicantSampler_update D state action =
     (let params = params state;
          (new_applicant, rng') = sample_population D (applicant_distribution params) (rng state)
      in case np_argmax (Applicant.group new_applicant) of
           Inl e \<Rightarrow> Inl e
         | Inr k \<Rightarrow> Inr (state\<lparr>rng := rng',
                applicant_features := Some (np_clip (features new_applicant)
                                              (min_observation params) (max_observation params)),
                group := Some (Applicant.group new_applicant),
                group_id := Some k,
                will_default := Some (Applicant.will_default new_applicant)\<rparr>))"

subsection \<open>\<open>_CreditShift.update\<close> (lines 248-325)\<close>

text \<open>
  Lines 279-289: \<open>n\<close> samples from the group's mixture, drawn from the local random
  source; each must carry the group vector of the state.
\<close>

fun check_group_samples ::
  "('c Mixture \<Rightarrow> 'r \<Rightarrow> Applicant \<times> 'r) \<Rightarrow> nat \<Rightarrow> 'c Mixture \<Rightarrow> int list option \<Rightarrow> 'r \<Rightarrow> error + 'r" where
  "check_group_samples smp 0 m g r = Inr r"
| "check_group_samples smp (Suc n) m g r =
     (case smp m r of (a, r') \<Rightarrow>
        if np_array_equal (Applicant.group a) g then check_group_samples smp n m g r'
        else Inl (AssertionError SampledWrongGroup))"

text \<open>
  Lines 292-295: one sample from each cluster component, in order; the \<open>argmax\<close> of its
  features must be the component's index.
\<close>

fun check_argmax_index ::
  "('c \<Rightarrow> 'r \<Rightarrow> Applicant \<times> 'r) \<Rightarrow> nat \<Rightarrow> 'c list \<Rightarrow> 'r \<Rightarrow> error + 'r" where
  "check_argmax_index smp idx [] r = Inr r"
| "check_argmax_index smp idx (component # rest) r =
     (case smp component r of (a, r') \<Rightarrow>
        (case np_argmax (features a) of
           Inl e \<Rightarrow> Inl e
         | Inr k \<Rightarrow> if k = idx then check_argmax_index smp (Suc idx) rest r'
                    else Inl (AssertionError ArgmaxMismatch)))"

text \<open>Lines 299-303: the target cluster, kept inside the cluster array.\<close>

definition target_cluster :: "bool option \<Rightarrow> nat \<Rightarrow> nat \<Rightarrow> nat" where
  "target_cluster wd cluster_id n =
     (let new_cluster = (if truthy wd then int cluster_id - 1 else int cluster_id + 1);
          new_cluster = min new_cluster (int n - 1);
          new_cluster = max new_cluster 0
      in nat new_cluster)"

text \<open>Lines 314-315: the two in-place updates of the copied weight list.\<close>

definition move_mass :: "real list \<Rightarrow> nat \<Rightarrow> nat \<Rightarrow> real \<Rightarrow> real list" where
  "move_mass cluster_probs cluster_id new_cluster mass_to_shift =
     (let probs1 = cluster_probs[cluster_id := cluster_probs ! cluster_id - mass_to_shift]
      in probs1[new_cluster := probs1 ! new_cluster + mass_to_shift])"

text \<open>Lines 324-325: the assignment of the new weights to the group's mixture.\<close>

definition set_group_weights :: "'c Params \<Rightarrow> nat \<Rightarrow> real list \<Rightarrow> 'c Params" where
  "set_group_weights p gid cluster_probs =
     (let dist = applicant_distribution p; m = components dist ! gid
      in p\<lparr>applicant_distribution :=
           Mixture ((components dist)[gid := Mixture (components m) cluster_probs]) (weights dist)\<rparr>)"

text \<open>
  Lines 278-295: the two diagnostic loops, both drawing from the local random source
  \<open>lrng\<close>, the fresh \<open>np.random.RandomState()\<close> of line 278.
\<close>

definition diagnostics ::
  "('c, 'r) Sampling \<Rightarrow> 'r \<Rightarrow> 'c Mixture \<Rightarrow> int list option \<Rightarrow> error + 'r" where
  "diagnostics D lrng m g =
     (case check_group_samples (sample_group D) 10 m g lrng of
        Inl e \<Rightarrow> Inl e
      | Inr lrng1 \<Rightarrow> check_argmax_index (sample_cluster D) 0 (components m) lrng1)"

text \<open>The update.\<close>

definition CreditShift_update ::
  "('c, 'r) Sampling \<Rightarrow> 'r \<Rightarrow> ('c, 'r) State \<Rightarrow> LoanDecision \<Rightarrow> error + ('c, 'r) State" where
  "CreditShift_update D lrng state action =
     (if action = REJECT then Inr state
      else
        let params = params state in
        case np_argmax_obj (State.group state) of
          Inl e \<Rightarrow> Inl e
        | Inr gid \<Rightarrow>
            if group_id state \<noteq> Some gid then Inl (AssertionError GroupOutOfSync)
            else if length (components (applicant_distribution params)) \<le> gid then Inl IndexError
            else
              let m = components (applicant_distribution params) ! gid;
                  cluster_probs = weights m
              in case diagnostics D lrng m (State.group state) of
                   Inl e \<Rightarrow> Inl e
                 | Inr lrng' \<Rightarrow>
                     (case np_argmax_obj (applicant_features state) of
                        Inl e \<Rightarrow> Inl e
                      | Inr cluster_id \<Rightarrow>
                          let new_cluster = target_cluster (State.will_default state)
                                              cluster_id (length cluster_probs)
                          in if length cluster_probs \<le> cluster_id then Inl IndexError
                             else if \<not> (cluster_probs ! cluster_id > 0)
                               then Inl (AssertionError NoMass)
                             else
                               let mass_to_shift = min (cluster_shift_increment params)
                                                     (cluster_probs ! cluster_id);
                                   cluster_probs = move_mass cluster_probs cluster_id
                                                     new_cluster mass_to_shift
                               in if \<not> (\<bar>sum_list cluster_probs - 1\<bar> < 1 / 1000000)
                                    then Inl (AssertionError SumNotOne)
                                  else if \<not> list_all (\<lambda>prob. prob \<ge> 0) cluster_probs
                                    then Inl (AssertionError NegativeProb)
                                  else Inr (state\<lparr>params :=
                                         set_group_weights params gid cluster_probs\<rparr>)))"

subsection \<open>The environment (lines 103-182, 328-337)\<close>

text \<open>
  The class attribute \<open>_parameter_updater\<close>: \<open>core.NoUpdate()\<close> in \<open>BaseLendingEnv\<close>,
  \<open>_CreditShift()\<close> in \<open>DelayedImpactEnv\<close>.

  Modelled from the spec: \<open>core.NoUpdate\<close> is not part of these sources; the spec calls
  it the no-op updater, which leaves the state as it is.
\<close>

datatype parameter_updater = NoUpdate | CreditShift

definition parameter_update ::
  "('c, 'r) Sampling \<Rightarrow> parameter_updater \<Rightarrow> 'r \<Rightarrow> ('c, 'r) State \<Rightarrow> LoanDecision
     \<Rightarrow> error + ('c, 'r) State" where
  "parameter_update D u lrng state action =
     (case u of NoUpdate \<Rightarrow> Inr state | CreditShift \<Rightarrow> CreditShift_update D lrng state action)"

text \<open>
  \<open>_state_init\<close> (lines 147-153): a state on a copy of the initial parameters, with the
  given random source or, when none is given, a fresh one; then the first applicant.
\<close>

definition state_init ::
  "('c, 'r) Sampling \<Rightarrow> 'r \<Rightarrow> 'c Params \<Rightarrow> 'r option \<Rightarrow> error + ('c, 'r) State" where
  "state_init D fresh initial_params rng_arg =
     ApplicantSampler_update D
       \<lparr>rng = (case rng_arg of Some r \<Rightarrow> r | None \<Rightarrow> fresh),
        params = initial_params,
        bank_cash = bank_starting_cash initial_params,
        applicant_features = None, group = None, group_id = None, will_default = None\<rparr>
       (None :: LoanDecision option)"

text \<open>\<open>_is_done\<close> (lines 160-162).\<close>

definition is_done :: "('c, 'r) State \<Rightarrow> bool" where
  "is_done state = (bank_cash state < loan_amount (params state))"

text \<open>\<open>_step_impl\<close> (lines 164-182).\<close>

definition step_impl ::
  "('c, 'r) Sampling \<Rightarrow> parameter_updater \<Rightarrow> 'r \<Rightarrow> ('c, 'r) State \<Rightarrow> LoanDecision
     \<Rightarrow> error + ('c, 'r) State" where
  "step_impl D u lrng state action =
     (let state1 = CashUpdater_update state action
      in case parameter_update D u lrng state1 action of
           Inl e \<Rightarrow> Inl e
         | Inr state2 \<Rightarrow> ApplicantSampler_update D state2 action)"

text \<open>
  The environment object: the pristine \<open>initial_params\<close>, the current \<open>state\<close>, and
  the phase of the episode.

  Modelled from the spec: the episode loop (\<open>core.FairnessEnv\<close>, with \<open>step\<close> and the
  base \<open>reset\<close>) is not part of these sources. The spec gives the environment the
  states uninitialized, ready and terminated: \<open>reset\<close> makes it ready; \<open>step\<close> is valid
  only when ready, runs \<open>_step_impl\<close>, and makes the environment terminated when
  \<open>_is_done\<close> holds of the new state; a \<open>step\<close> on a terminated environment is rejected.
  An uninitialized environment is the absence of an \<open>Env\<close> value. The history is read
  only by the rendering code and is left out.
\<close>

datatype phase = Ready | Terminated

record ('c, 'r) Env =
  initial_params :: "'c Params"
  state :: "('c, 'r) State"
  phase :: phase

text \<open>\<open>__init__\<close> (lines 117-145): keeps the parameters and calls \<open>_state_init()\<close>.\<close>

definition env_init :: "('c, 'r) Sampling \<Rightarrow> 'r \<Rightarrow> 'c Params \<Rightarrow> error + ('c, 'r) Env" where
  "env_init D fresh ip =
     (case state_init D fresh ip None of
        Inl e \<Rightarrow> Inl e
      | Inr s \<Rightarrow> Inr \<lparr>initial_params = ip, state = s, phase = Ready\<rparr>)"

text \<open>\<open>reset\<close> (lines 155-158): \<open>_state_init(self.state.rng)\<close>, then the base \<open>reset\<close>.\<close>

definition reset :: "('c, 'r) Sampling \<Rightarrow> 'r \<Rightarrow> ('c, 'r) Env \<Rightarrow> error + ('c, 'r) Env" where
  "reset D fresh env =
     (case state_init D fresh (initial_params env) (Some (rng (state env))) of
        Inl e \<Rightarrow> Inl e
      | Inr s \<Rightarrow> Inr (env\<lparr>state := s, phase := Ready\<rparr>))"

definition step ::
  "('c, 'r) Sampling \<Rightarrow> parameter_updater \<Rightarrow> 'r \<Rightarrow> ('c, 'r) Env \<Rightarrow> LoanDecision
     \<Rightarrow> error + ('c, 'r) Env" where
  "step D u lrng env action =
     (if phase env = Terminated then Inl PostTerminationStep
      else case step_impl D u lrng (state env) action of
             Inl e \<Rightarrow> Inl e
           | Inr s \<Rightarrow> Inr (env\<lparr>state := s, phase := (if is_done s then Terminated else Ready)\<rparr>))"

text \<open>
  The environments that construction, \<open>reset\<close> and \<open>step\<close> can produce from the initial
  parameters \<open>ip\<close>; an exception ends the run.
\<close>

inductive reachable ::
  "('c, 'r) Sampling \<Rightarrow> parameter_updater \<Rightarrow> 'c Params \<Rightarrow> ('c, 'r) Env \<Rightarrow> bool"
  for D :: "('c, 'r) Sampling" and u :: parameter_updater and ip :: "'c Params" where
  reachable_init: "env_init D fresh ip = Inr env \<Longrightarrow> reachable D u ip env"
| reachable_reset: "reachable D u ip env \<Longrightarrow> reset D fresh env = Inr env' \<Longrightarrow> reachable D u ip env'"
| reachable_step: "reachable D u ip env \<Longrightarrow> step D u lrng env action = Inr env'
     \<Longrightarrow> reachable D u ip env'"



subsection \<open>Notions used in the statements\<close>

text \<open>The cluster weights of group \<open>g\<close> in a state.\<close>

definition group_weights :: "('c, 'r) State \<Rightarrow> nat \<Rightarrow> real list" where
  "group_weights s g = weights (components (applicant_distribution (params s)) ! g)"

text \<open>The invariant of a cluster mixture: the weights sum to 1 within \<open>1e-6\<close>, none negative.\<close>

definition weights_ok :: "real list \<Rightarrow> bool" where
  "weights_ok ws = (\<bar>sum_list ws - 1\<bar> < 1 / 1000000 \<and> list_all (\<lambda>p. 0 \<le> p) ws)"

text \<open>
  The state object after a call of an updater that assigns to it only in its last
  statement: the new state when the call returned, the old one when it raised.
\<close>

definition state_after :: "'s \<Rightarrow> error + 's \<Rightarrow> 's" where
  "state_after s r = (case r of Inl e \<Rightarrow> s | Inr s' \<Rightarrow> s')"


text \<open>
  The credit shift in the words of the spec: the target is the current cluster minus
  one after a default and plus one after a repayment, clamped to the cluster indices
  \<open>0 .. n - 1\<close>; the mass-shift operation takes \<open>amount\<close> from one weight and adds it to
  another.
\<close>

definition spec_target :: "bool \<Rightarrow> nat \<Rightarrow> nat \<Rightarrow> nat" where
  "spec_target defaulted current n =
     (if defaulted then (if current = 0 then 0 else current - 1)
      else (if n \<le> current + 1 then n - 1 else current + 1))"

definition spec_shift_mass :: "real list \<Rightarrow> nat \<Rightarrow> nat \<Rightarrow> real \<Rightarrow> real list" where
  "spec_shift_mass ws from_cluster to_cluster amount =
     map (\<lambda>i. ws ! i - (if i = from_cluster then amount else 0)
                     + (if i = to_cluster then amount else 0)) [0..<length ws]"

text \<open>
  Group membership vector and group index agree whenever both are set.
\<close>

definition group_consistent :: "('c, 'r) State \<Rightarrow> bool" where
  "group_consistent s =
     (case (State.group s, group_id s) of
        (Some gv, Some k) \<Rightarrow> np_argmax gv = Inr k
      | _ \<Rightarrow> True)"

subsection \<open>A small population for concrete runs\<close>

text \<open>
  Two groups of three clusters with weights \<open>[0.5, 0.3, 0.2]\<close>; starting cash 10000,
  loan amount 1000, interest rate 0.1, shift increment 0.4. A cluster component is the
  constant one-hot credit score it yields; the random source is a counter, and the
  population yields an applicant of group 0 in cluster \<open>r mod 3\<close> who defaults at odd
  counts \<open>r\<close>.
\<close>

definition one_hot :: "nat \<Rightarrow> real list" where
  "one_hot c = (if c = 0 then [1, 0, 0] else if c = 1 then [0, 1, 0] else [0, 0, 1])"

definition demo_sampling :: "(real list, nat) Sampling" where
  "demo_sampling =
     \<lparr>sample_population = (\<lambda>dist r.
        (\<lparr>features = one_hot (r mod 3), group = [1, 0], will_default = odd r\<rparr>, Suc r)),
      sample_group = (\<lambda>m r.
        (\<lparr>features = [1, 0, 0], group = [1, 0], will_default = False\<rparr>, Suc r)),
      sample_cluster = (\<lambda>c r.
        (\<lparr>features = c, group = [1, 0], will_default = False\<rparr>, Suc r))\<rparr>"


definition demo_clusters :: "real list list" where
  "demo_clusters = [[1, 0, 0], [0, 1, 0], [0, 0, 1]]"

definition demo_params :: "real list Params" where
  "demo_params =
     \<lparr>applicant_distribution =
        Mixture [Mixture demo_clusters [1/2, 3/10, 1/5],
                 Mixture demo_clusters [1/2, 3/10, 1/5]] [1/2, 1/2],
      bank_starting_cash = 10000, interest_rate = 1/10, loan_amount = 1000,
      max_cash = 10000, min_observation = 0, max_observation = 1,
      cluster_shift_increment = 4/10\<rparr>"

text \<open>An applicant of group 0 with the given credit score and outcome, cash 10000.\<close>

definition demo_state :: "real list \<Rightarrow> bool \<Rightarrow> (real list, nat) State" where
  "demo_state score wd =
     \<lparr>rng = 0, params = demo_params, bank_cash = 10000,
      applicant_features = Some score, group = Some [1, 0], group_id = Some 0,
      will_default = Some wd\<rparr>"

text \<open>
  The same applicant of cluster 1 after one accepted default: the mass 0.3 of cluster 1
  has moved to cluster 0, and cluster 1 is empty.
\<close>

definition demo_state_no_mass :: "(real list, nat) State" where
  "demo_state_no_mass =
     (demo_state [0, 1, 0] True)\<lparr>params := demo_params\<lparr>applicant_distribution :=
        Mixture [Mixture demo_clusters [4/5, 0, 1/5],
                 Mixture demo_clusters [1/2, 3/10, 1/5]] [1/2, 1/2]\<rparr>\<rparr>"

text \<open>The environment after construction with a fresh random source at count 0.\<close>

definition demo_env0 :: "(real list, nat) Env" where
  "demo_env0 =
     \<lparr>initial_params = demo_params,
      state = (demo_state [1, 0, 0] False)\<lparr>rng := 1\<rparr>,
      phase = Ready\<rparr>"

text \<open>The environment after accepting that first applicant, who repays.\<close>

definition demo_env1 :: "(real list, nat) Env" where
  "demo_env1 =
     \<lparr>initial_params = demo_params,
      state = (demo_state [0, 1, 0] True)\<lparr>rng := 2, bank_cash := 10100\<rparr>,
      phase = Ready\<rparr>"

section \<open>Properties\<close>

subsection \<open>\<open>np.argmax\<close>\<close>

lemma argmax_from_range:
  "argmax_from xs i best v = best \<or> (i \<le> argmax_from xs i best v \<and> argmax_from xs i best v < i + length xs)"
proof (induction xs arbitrary: i best v)
  case Nil
  then show ?case by simp
next
  case (Cons x xs)
  show ?case
    using Cons.IH [of "Suc i" i x] Cons.IH [of "Suc i" best v] by auto
qed

lemma np_argmax_less: "np_argmax xs = Inr k \<Longrightarrow> k < length xs"
  using argmax_from_range [of "tl xs" 1 0 "hd xs"]
  by (cases xs) (auto simp: np_argmax_def)

lemma argmax_from_max:
  assumes "best < length pre" "v = pre ! best" "\<forall>j < length pre. pre ! j \<le> v" "\<forall>j < best. pre ! j < v"
    and "i = length pre" and "k = argmax_from xs i best v"
  shows "k < length (pre @ xs) \<and> (\<forall>j < length (pre @ xs). (pre @ xs) ! j \<le> (pre @ xs) ! k)
         \<and> (\<forall>j < k. (pre @ xs) ! j < (pre @ xs) ! k)"
  using assms
proof (induction xs arbitrary: pre best v i k)
  case Nil
  then show ?case by simp
next
  case (Cons x xs)
  show ?case
  proof (cases "v < x")
    case True
    have "k = argmax_from xs (Suc i) i x" using Cons.prems True by simp
    moreover have "i < length (pre @ [x])" using Cons.prems by simp
    moreover have "x = (pre @ [x]) ! i" using Cons.prems by simp
    moreover have "\<forall>j < length (pre @ [x]). (pre @ [x]) ! j \<le> x"
      using Cons.prems True by (auto simp: nth_append less_Suc_eq intro: less_imp_le order_trans)
    moreover have "\<forall>j < i. (pre @ [x]) ! j < x"
      using Cons.prems True by (auto simp: nth_append intro: le_less_trans)
    moreover have "Suc i = length (pre @ [x])" using Cons.prems by simp
    ultimately show ?thesis
      using Cons.IH [of i "pre @ [x]" x "Suc i" k] by simp
  next
    case False
    have "k = argmax_from xs (Suc i) best v" using Cons.prems False by simp
    moreover have "best < length (pre @ [x])" using Cons.prems by simp
    moreover have "v = (pre @ [x]) ! best" using Cons.prems by (simp add: nth_append)
    moreover have "\<forall>j < length (pre @ [x]). (pre @ [x]) ! j \<le> v"
      using Cons.prems False by (auto simp: nth_append less_Suc_eq)
    moreover have "\<forall>j < best. (pre @ [x]) ! j < v"
      using Cons.prems by (auto simp: nth_append)
    moreover have "Suc i = length (pre @ [x])" using Cons.prems by simp
    ultimately show ?thesis
      using Cons.IH [of best "pre @ [x]" v "Suc i" k] by simp
  qed
qed

text \<open>\<open>np_argmax\<close> returns the first index at which the maximum occurs.\<close>

lemma np_argmax_first_max:
  assumes "np_argmax xs = Inr k"
  shows "k < length xs \<and> (\<forall>j < length xs. xs ! j \<le> xs ! k) \<and> (\<forall>j < k. xs ! j < xs ! k)"
proof (cases xs)
  case Nil
  then show ?thesis using assms by (simp add: np_argmax_def)
next
  case (Cons x rest)
  then have k: "k = argmax_from rest 1 0 x" using assms by (simp add: np_argmax_def)
  show ?thesis
    using argmax_from_max [of 0 "[x]" x 1 k rest] k Cons by simp
qed

lemma np_argmax_Inl: "np_argmax xs = Inl e \<Longrightarrow> e = ValueError"
  by (cases xs) (auto simp: np_argmax_def)

lemma np_argmax_obj_Inl: "np_argmax_obj a = Inl e \<Longrightarrow> e = ValueError"
  by (cases a) (auto simp: np_argmax_obj_def dest: np_argmax_Inl)

subsection \<open>The credit shift\<close>

lemma check_group_samples_Inl:
  "check_group_samples smp n m g r = Inl e \<Longrightarrow> e = AssertionError SampledWrongGroup"
  by (induction n arbitrary: r) (auto split: prod.splits if_splits)

lemma check_argmax_index_Inl:
  "check_argmax_index smp idx cs r = Inl e \<Longrightarrow> e = ValueError \<or> e = AssertionError ArgmaxMismatch"
  by (induction cs arbitrary: idx r) (auto split: prod.splits sum.splits if_splits dest: np_argmax_Inl)

lemma diagnostics_Inl:
  "diagnostics D lrng m g = Inl e \<Longrightarrow>
     e = AssertionError SampledWrongGroup \<or> e = ValueError \<or> e = AssertionError ArgmaxMismatch"
  by (auto simp: diagnostics_def split: sum.splits
      dest: check_group_samples_Inl check_argmax_index_Inl)

lemma target_cluster_less: "cid < n \<Longrightarrow> target_cluster wd cid n < n"
  by (auto simp: target_cluster_def Let_def)

lemma target_cluster_spec:
  "cid < n \<Longrightarrow> target_cluster wd cid n = spec_target (wd = Some True) cid n"
  by (auto simp: target_cluster_def spec_target_def truthy_def Let_def)

lemma length_move_mass: "length (move_mass ws c t m) = length ws"
  by (simp add: move_mass_def Let_def)

lemma sum_list_update_real:
  "k < length xs \<Longrightarrow> sum_list (xs[k := x]) = sum_list xs + x - (xs ! k :: real)"
  by (induction xs arbitrary: k) (auto split: nat.splits)

lemma sum_list_move_mass:
  "c < length ws \<Longrightarrow> t < length ws \<Longrightarrow> sum_list (move_mass ws c t m) = sum_list ws"
  by (simp add: move_mass_def Let_def sum_list_update_real nth_list_update)

lemma move_mass_spec:
  "c < length ws \<Longrightarrow> t < length ws \<Longrightarrow> move_mass ws c t m = spec_shift_mass ws c t m"
  by (auto simp: move_mass_def spec_shift_mass_def Let_def nth_list_update intro!: nth_equalityI)

lemma move_mass_same: "move_mass ws c c m = ws"
  by (cases "c < length ws") (simp_all add: move_mass_def Let_def list_update_beyond)

lemma group_weights_set_group_weights:
  "g < length (components (applicant_distribution (params s))) \<Longrightarrow>
   group_weights (s\<lparr>params := set_group_weights (params s) g ws\<rparr>) g' =
     (if g' = g then ws else group_weights s g')"
  by (simp add: group_weights_def set_group_weights_def Let_def)

lemma CreditShift_accept_InrE:
  assumes "CreditShift_update D lrng s ACCEPT = Inr s'"
  obtains gid cid where
    "np_argmax_obj (State.group s) = Inr gid" "group_id s = Some gid"
    "gid < length (components (applicant_distribution (params s)))"
    "np_argmax_obj (applicant_features s) = Inr cid"
    "cid < length (group_weights s gid)"
    "0 < group_weights s gid ! cid"
    "s' = s\<lparr>params := set_group_weights (params s) gid
        (move_mass (group_weights s gid) cid
          (target_cluster (State.will_default s) cid (length (group_weights s gid)))
          (min (cluster_shift_increment (params s)) (group_weights s gid ! cid)))\<rparr>"
    "weights_ok (move_mass (group_weights s gid) cid
          (target_cluster (State.will_default s) cid (length (group_weights s gid)))
          (min (cluster_shift_increment (params s)) (group_weights s gid ! cid)))"
  using assms
  by (auto simp: CreditShift_update_def Let_def group_weights_def weights_ok_def
      split: sum.splits if_splits)

text \<open>When every check of the credit shift passes, the update returns the shifted state.\<close>

lemma CreditShift_accept_InrI:
  assumes "np_argmax_obj (State.group s) = Inr gid" and "group_id s = Some gid"
    and "gid < length (components (applicant_distribution (params s)))"
    and "diagnostics D lrng (components (applicant_distribution (params s)) ! gid)
           (State.group s) = Inr lrng'"
    and "np_argmax_obj (applicant_features s) = Inr cid"
    and "cid < length (group_weights s gid)"
    and "0 < group_weights s gid ! cid"
    and "ws = move_mass (group_weights s gid) cid
          (target_cluster (State.will_default s) cid (length (group_weights s gid)))
          (min (cluster_shift_increment (params s)) (group_weights s gid ! cid))"
    and "weights_ok ws"
  shows "CreditShift_update D lrng s ACCEPT
           = Inr (s\<lparr>params := set_group_weights (params s) gid ws\<rparr>)"
  using assms
  by (simp add: CreditShift_update_def Let_def group_weights_def weights_ok_def)

lemma weights_ok_move_mass:
  assumes "weights_ok ws" and "c < length ws" and "t < length ws"
    and "0 \<le> m" and "m \<le> ws ! c"
  shows "weights_ok (move_mass ws c t m)"
proof -
  have "sum_list (move_mass ws c t m) = sum_list ws"
    using assms(2,3) by (rule sum_list_move_mass)
  moreover have "list_all (\<lambda>p. 0 \<le> p) (move_mass ws c t m)"
    using assms
    by (auto simp: weights_ok_def list_all_length move_mass_def Let_def nth_list_update)
  ultimately show ?thesis using assms(1) by (simp add: weights_ok_def)
qed

lemma CreditShift_accept_returns:
  assumes "np_argmax_obj (State.group s) = Inr g" and "group_id s = Some g"
    and "g < length (components (applicant_distribution (params s)))"
    and "diagnostics D lrng (components (applicant_distribution (params s)) ! g)
           (State.group s) = Inr lrng'"
    and "np_argmax_obj (applicant_features s) = Inr cid"
    and "cid < length (group_weights s g)"
    and "0 < group_weights s g ! cid"
    and "weights_ok (group_weights s g)"
    and "0 \<le> cluster_shift_increment (params s)"
  shows "CreditShift_update D lrng s ACCEPT
           = Inr (s\<lparr>params := set_group_weights (params s) g
                (move_mass (group_weights s g) cid
                   (target_cluster (State.will_default s) cid (length (group_weights s g)))
                   (min (cluster_shift_increment (params s)) (group_weights s g ! cid)))\<rparr>)"
proof -
  have t: "target_cluster (State.will_default s) cid (length (group_weights s g))
             < length (group_weights s g)"
    using assms(6) by (rule target_cluster_less)
  have m: "0 \<le> min (cluster_shift_increment (params s)) (group_weights s g ! cid)"
    using assms(7,9) by simp
  have w: "weights_ok (move_mass (group_weights s g) cid
                   (target_cluster (State.will_default s) cid (length (group_weights s g)))
                   (min (cluster_shift_increment (params s)) (group_weights s g ! cid)))"
    using assms(8,6) t m by (rule weights_ok_move_mass) simp
  show ?thesis
    by (rule CreditShift_accept_InrI [OF assms(1-7) refl w])
qed

lemma CreditShift_final_asserts:
  assumes "group_id s = Some g" and "weights_ok (group_weights s g)"
  shows "CreditShift_update D lrng s a \<noteq> Inl (AssertionError SumNotOne)"
    and "0 \<le> cluster_shift_increment (params s) \<Longrightarrow>
           CreditShift_update D lrng s a \<noteq> Inl (AssertionError NegativeProb)"
proof -
  show "CreditShift_update D lrng s a \<noteq> Inl (AssertionError SumNotOne)"
    using assms
    by (auto simp: CreditShift_update_def Let_def group_weights_def weights_ok_def
        sum_list_move_mass target_cluster_less
        split: sum.splits if_splits dest: np_argmax_obj_Inl diagnostics_Inl)
next
  assume inc: "0 \<le> cluster_shift_increment (params s)"
  have nonneg: "list_all (\<lambda>p. 0 \<le> p) (move_mass ws c t m)"
    if "list_all (\<lambda>p. 0 \<le> p) ws" "c < length ws" "t < length ws" "0 \<le> m" "m \<le> ws ! c"
    for ws :: "real list" and c t m
    using that
    by (auto simp: list_all_length move_mass_def Let_def nth_list_update length_move_mass)
  show "CreditShift_update D lrng s a \<noteq> Inl (AssertionError NegativeProb)"
    using assms inc
    by (auto simp: CreditShift_update_def Let_def group_weights_def weights_ok_def
        target_cluster_less nonneg
        split: sum.splits if_splits dest: np_argmax_obj_Inl diagnostics_Inl)
qed

text \<open>
  Claim C1 (mass conservation). Take any group whose cluster weights sum to 1 within
  \<open>1e-6\<close> and are all non-negative. After an application of the credit-shift updater
  with action accept, the weights of that group in the state object still sum to 1
  within \<open>1e-6\<close> and are all non-negative: when the call returns, by the two final
  assertions (the applicant's group) or because the weights are untouched (any other
  group); when it raises, because nothing was assigned.
\<close>

theorem C1_mass_conservation:
  assumes "g < length (components (applicant_distribution (params s)))"
    and "weights_ok (group_weights s g)"
  shows "weights_ok (group_weights (state_after s (CreditShift_update D lrng s ACCEPT)) g)"
proof (cases "CreditShift_update D lrng s ACCEPT")
  case (Inl e)
  then show ?thesis using assms by (simp add: state_after_def)
next
  case (Inr s')
  then show ?thesis
    using assms
    by (elim CreditShift_accept_InrE)
       (simp add: state_after_def Inr group_weights_set_group_weights)
qed

text \<open>
  Claim C2 (the credit shift). Take a state with a sampled applicant whose feature
  vector has \<open>argmax\<close> \<open>cid\<close>, the current cluster, and action accept. The target is the
  current cluster minus one after a default and plus one otherwise, clamped to the
  cluster indices. Whenever the updater returns, the new weights of the applicant's
  group are the old ones with \<open>min(shift increment, weight of the current cluster)\<close>
  moved from the current cluster to the target, and they are unchanged when the
  clamped target is the current cluster. The updater does return, with exactly that
  state, when the group vector and the group index agree, the diagnostic sampling
  passes, the current cluster is a cluster of the group with positive weight, the
  weights of the group sum to 1 within \<open>1e-6\<close> with none negative, and the shift
  increment is not negative. With action reject the updater changes nothing.
\<close>

theorem C2_credit_shift:
  assumes "applicant_features s = Some f" and "np_argmax f = Inr cid"
    and "group_id s = Some g" and "State.will_default s = Some wd"
  shows "(CreditShift_update D lrng s ACCEPT = Inr s' \<longrightarrow>
            group_weights s' g =
              spec_shift_mass (group_weights s g) cid
                (spec_target wd cid (length (group_weights s g)))
                (min (cluster_shift_increment (params s)) (group_weights s g ! cid))
            \<and> (spec_target wd cid (length (group_weights s g)) = cid \<longrightarrow>
                 group_weights s' g = group_weights s g))
         \<and> (State.group s = Some gv \<and> np_argmax gv = Inr g
            \<and> g < length (components (applicant_distribution (params s)))
            \<and> diagnostics D lrng (components (applicant_distribution (params s)) ! g)
                 (State.group s) = Inr lrng'
            \<and> cid < length (group_weights s g) \<and> 0 < group_weights s g ! cid
            \<and> weights_ok (group_weights s g) \<and> 0 \<le> cluster_shift_increment (params s)
            \<longrightarrow> CreditShift_update D lrng s ACCEPT =
                  Inr (s\<lparr>params := set_group_weights (params s) g
                         (spec_shift_mass (group_weights s g) cid
                            (spec_target wd cid (length (group_weights s g)))
                            (min (cluster_shift_increment (params s))
                                 (group_weights s g ! cid)))\<rparr>))
         \<and> CreditShift_update D lrng s REJECT = Inr s"
proof (intro conjI impI)
  assume r: "CreditShift_update D lrng s ACCEPT = Inr s'"
  from r have "group_weights s' g =
              spec_shift_mass (group_weights s g) cid
                (spec_target wd cid (length (group_weights s g)))
                (min (cluster_shift_increment (params s)) (group_weights s g ! cid))
            \<and> (spec_target wd cid (length (group_weights s g)) = cid \<longrightarrow>
                 group_weights s' g = group_weights s g)"
  proof (rule CreditShift_accept_InrE)
    fix gid c
    assume a: "group_id s = Some gid"
      "gid < length (components (applicant_distribution (params s)))"
      "np_argmax_obj (applicant_features s) = Inr c"
      "c < length (group_weights s gid)"
      "s' = s\<lparr>params := set_group_weights (params s) gid
        (move_mass (group_weights s gid) c
          (target_cluster (State.will_default s) c (length (group_weights s gid)))
          (min (cluster_shift_increment (params s)) (group_weights s gid ! c)))\<rparr>"
    have g: "gid = g" and c: "c = cid"
      using a assms by (simp_all add: np_argmax_obj_def)
    have t: "target_cluster (State.will_default s) cid (length (group_weights s g))
               = spec_target wd cid (length (group_weights s g))"
      using a assms g c by (simp add: target_cluster_spec)
    have w: "group_weights s' g = move_mass (group_weights s g) cid
               (spec_target wd cid (length (group_weights s g)))
               (min (cluster_shift_increment (params s)) (group_weights s g ! cid))"
      using a g c t by (simp add: group_weights_set_group_weights)
    have tl: "spec_target wd cid (length (group_weights s g)) < length (group_weights s g)"
      using target_cluster_less [of cid "length (group_weights s g)" "State.will_default s"] a g c t
      by simp
    show ?thesis
      using w tl a g c
      by (auto simp: move_mass_spec [symmetric] move_mass_same)
  qed
  then show "group_weights s' g =
              spec_shift_mass (group_weights s g) cid
                (spec_target wd cid (length (group_weights s g)))
                (min (cluster_shift_increment (params s)) (group_weights s g ! cid))"
    and "spec_target wd cid (length (group_weights s g)) = cid \<Longrightarrow>
                 group_weights s' g = group_weights s g"
    by blast+
next
  assume h: "State.group s = Some gv \<and> np_argmax gv = Inr g
            \<and> g < length (components (applicant_distribution (params s)))
            \<and> diagnostics D lrng (components (applicant_distribution (params s)) ! g)
                 (State.group s) = Inr lrng'
            \<and> cid < length (group_weights s g) \<and> 0 < group_weights s g ! cid
            \<and> weights_ok (group_weights s g) \<and> 0 \<le> cluster_shift_increment (params s)"
  have 1: "np_argmax_obj (State.group s) = Inr g" using h by (simp add: np_argmax_obj_def)
  have 5: "np_argmax_obj (applicant_features s) = Inr cid"
    using assms by (simp add: np_argmax_obj_def)
  have t: "target_cluster (State.will_default s) cid (length (group_weights s g))
               = spec_target wd cid (length (group_weights s g))"
    using h assms by (simp add: target_cluster_spec)
  have tl: "spec_target wd cid (length (group_weights s g)) < length (group_weights s g)"
    using target_cluster_less [of cid "length (group_weights s g)" "State.will_default s"] h t
    by simp
  have "CreditShift_update D lrng s ACCEPT
           = Inr (s\<lparr>params := set_group_weights (params s) g
                (move_mass (group_weights s g) cid
                   (target_cluster (State.will_default s) cid (length (group_weights s g)))
                   (min (cluster_shift_increment (params s)) (group_weights s g ! cid)))\<rparr>)"
  proof (rule CreditShift_accept_returns [OF 1 assms(3) _ _ 5])
    show "g < length (components (applicant_distribution (params s)))" using h by blast
    show "diagnostics D lrng (components (applicant_distribution (params s)) ! g)
            (State.group s) = Inr lrng'" using h by blast
    show "cid < length (group_weights s g)" using h by blast
    show "0 < group_weights s g ! cid" using h by blast
    show "weights_ok (group_weights s g)" using h by blast
    show "0 \<le> cluster_shift_increment (params s)" using h by blast
  qed
  then show "CreditShift_update D lrng s ACCEPT =
                  Inr (s\<lparr>params := set_group_weights (params s) g
                         (spec_shift_mass (group_weights s g) cid
                            (spec_target wd cid (length (group_weights s g)))
                            (min (cluster_shift_increment (params s))
                                 (group_weights s g ! cid)))\<rparr>)"
    using h tl by (simp add: t move_mass_spec)
next
  show "CreditShift_update D lrng s REJECT = Inr s" by (simp add: CreditShift_update_def)
qed

text \<open>
  Claim C3 (cash). With action reject the cash updater leaves the state, and so the bank
  cash, unchanged. With action accept it takes \<open>loan_amount\<close> from the bank cash when
  the applicant will default, and adds \<open>loan_amount * interest_rate\<close> when the applicant
  will not. With cash 10000, loan amount 1000 and interest rate 0.1: accepting a repaying
  applicant gives 10100, accepting a defaulting one gives 9000, rejecting leaves 10000.
\<close>

theorem C3_cash_update:
  "CashUpdater_update s REJECT = s
   \<and> (State.will_default s = Some True \<longrightarrow>
        CashUpdater_update s ACCEPT = s\<lparr>bank_cash := bank_cash s - loan_amount (params s)\<rparr>)
   \<and> (State.will_default s = Some False \<longrightarrow>
        CashUpdater_update s ACCEPT =
          s\<lparr>bank_cash := bank_cash s + loan_amount (params s) * interest_rate (params s)\<rparr>)
   \<and> (bank_cash s = 10000 \<and> loan_amount (params s) = 1000 \<and> interest_rate (params s) = 1 / 10 \<longrightarrow>
        bank_cash (CashUpdater_update s REJECT) = 10000
        \<and> (State.will_default s = Some False \<longrightarrow> bank_cash (CashUpdater_update s ACCEPT) = 10100)
        \<and> (State.will_default s = Some True \<longrightarrow> bank_cash (CashUpdater_update s ACCEPT) = 9000))"
  by (simp add: CashUpdater_update_def truthy_def Let_def)


text \<open>
  Claim C9 (zero mass fails fast). Take an accepted applicant whose group is in sync
  and whose current cluster is a valid index. If that cluster has weight exactly zero,
  the updater never returns a state, and once the diagnostic loops have passed it
  raises the assertion error of line 306. If the cluster has positive weight, that
  assertion error is not raised.
\<close>

theorem C9_zero_mass_fails_fast:
  assumes "State.group s = Some gv" and "np_argmax gv = Inr g" and "group_id s = Some g"
    and "g < length (components (applicant_distribution (params s)))"
    and "applicant_features s = Some f" and "np_argmax f = Inr cid"
    and "cid < length (group_weights s g)"
  shows "(group_weights s g ! cid = 0 \<longrightarrow>
            (\<forall>s'. CreditShift_update D lrng s ACCEPT \<noteq> Inr s')
            \<and> (\<forall>lrng'. diagnostics D lrng (components (applicant_distribution (params s)) ! g)
                           (State.group s) = Inr lrng' \<longrightarrow>
                  CreditShift_update D lrng s ACCEPT = Inl (AssertionError NoMass)))
         \<and> (0 < group_weights s g ! cid \<longrightarrow>
              CreditShift_update D lrng s ACCEPT \<noteq> Inl (AssertionError NoMass))"
  using assms
  by (auto simp: CreditShift_update_def Let_def group_weights_def np_argmax_obj_def
      split: sum.splits if_splits dest: np_argmax_Inl diagnostics_Inl)

text \<open>
  Claim C10 (frame of the credit shift). When the updater returns for action accept,
  bank cash, applicant features, group vector, group index and will-default flag
  are unchanged; the random source of the state is unchanged, and the update does not
  depend on it (the same call on a state with any other random source gives the same
  result, with that source untouched); the mixtures of all other groups, the cluster
  components of the applicant's group, the group-level weights and all other parameters
  are unchanged.
\<close>

theorem C10_credit_shift_frame:
  assumes "CreditShift_update D lrng s ACCEPT = Inr s'" and "group_id s = Some g"
  shows "bank_cash s' = bank_cash s
         \<and> applicant_features s' = applicant_features s
         \<and> State.group s' = State.group s
         \<and> group_id s' = group_id s
         \<and> State.will_default s' = State.will_default s
         \<and> rng s' = rng s
         \<and> (\<forall>r. CreditShift_update D lrng (s\<lparr>rng := r\<rparr>) ACCEPT = Inr (s'\<lparr>rng := r\<rparr>))
         \<and> length (components (applicant_distribution (params s')))
               = length (components (applicant_distribution (params s)))
         \<and> (\<forall>g'. g' \<noteq> g \<longrightarrow>
                components (applicant_distribution (params s')) ! g'
                  = components (applicant_distribution (params s)) ! g')
         \<and> components (components (applicant_distribution (params s')) ! g)
               = components (components (applicant_distribution (params s)) ! g)
         \<and> weights (applicant_distribution (params s')) = weights (applicant_distribution (params s))
         \<and> params s' = (params s)\<lparr>applicant_distribution := applicant_distribution (params s')\<rparr>"
proof -
  have r: "CreditShift_update D lrng (s\<lparr>rng := r\<rparr>) ACCEPT
             = map_sum id (\<lambda>t. t\<lparr>rng := r\<rparr>) (CreditShift_update D lrng s ACCEPT)" for r
    by (simp add: CreditShift_update_def Let_def split: sum.splits)
  from assms(1) show ?thesis
    by (rule CreditShift_accept_InrE)
       (use assms r in \<open>simp add: set_group_weights_def Let_def\<close>)
qed


subsection \<open>One step of the environment\<close>

lemma CashUpdater_only_cash:
  "CashUpdater_update s a = s\<lparr>bank_cash := bank_cash (CashUpdater_update s a)\<rparr>"
  by (simp add: CashUpdater_update_def Let_def)

lemma CashUpdater_cash:
  "bank_cash (CashUpdater_update s a) =
     (if a = REJECT then bank_cash s
      else if State.will_default s = Some True then bank_cash s - loan_amount (params s)
      else bank_cash s + loan_amount (params s) * interest_rate (params s))"
  by (simp add: CashUpdater_update_def Let_def truthy_def)

lemma CreditShift_bank_cash:
  "CreditShift_update D l (s\<lparr>bank_cash := c\<rparr>) a =
     map_sum id (\<lambda>t. t\<lparr>bank_cash := c\<rparr>) (CreditShift_update D l s a)"
  by (simp add: CreditShift_update_def Let_def split: sum.splits)

lemma parameter_update_bank_cash:
  "parameter_update D u l (s\<lparr>bank_cash := c\<rparr>) a =
     map_sum id (\<lambda>t. t\<lparr>bank_cash := c\<rparr>) (parameter_update D u l s a)"
  by (cases u) (simp_all add: parameter_update_def CreditShift_bank_cash)

lemma CreditShift_frame:
  assumes "CreditShift_update D l s a = Inr s'"
  shows "\<exists>dist. s' = s\<lparr>params := (params s)\<lparr>applicant_distribution := dist\<rparr>\<rparr>"
proof (cases a)
  case REJECT
  then show ?thesis using assms by (auto simp: CreditShift_update_def intro: exI [of _ "applicant_distribution (params s)"])
next
  case ACCEPT
  then show ?thesis
    using assms by (auto elim!: CreditShift_accept_InrE simp: set_group_weights_def Let_def)
qed

lemma parameter_update_frame:
  assumes "parameter_update D u l s a = Inr s'"
  shows "\<exists>dist. s' = s\<lparr>params := (params s)\<lparr>applicant_distribution := dist\<rparr>\<rparr>"
proof (cases u)
  case NoUpdate
  then show ?thesis using assms by (auto simp: parameter_update_def intro: exI [of _ "applicant_distribution (params s)"])
next
  case CreditShift
  then show ?thesis using assms by (simp add: parameter_update_def CreditShift_frame)
qed

lemma ApplicantSampler_InrE:
  assumes "ApplicantSampler_update D s a = Inr s'"
  obtains new r' k where
    "sample_population D (applicant_distribution (params s)) (rng s) = (new, r')"
    "np_argmax (Applicant.group new) = Inr k"
    "s' = s\<lparr>rng := r',
            applicant_features := Some (np_clip (features new) (min_observation (params s))
                                         (max_observation (params s))),
            group := Some (Applicant.group new), group_id := Some k,
            will_default := Some (Applicant.will_default new)\<rparr>"
  using assms
  by (auto simp: ApplicantSampler_update_def Let_def split: prod.splits sum.splits)

lemma step_impl_InrE:
  assumes "step_impl D u lrng s a = Inr s'"
  obtains s2 new r' k where
    "parameter_update D u lrng s a = Inr s2"
    "sample_population D (applicant_distribution (params s2)) (rng s) = (new, r')"
    "np_argmax (Applicant.group new) = Inr k"
    "s' = s\<lparr>rng := r', params := params s2,
            bank_cash := bank_cash (CashUpdater_update s a),
            applicant_features :=
              Some (np_clip (features new) (min_observation (params s))
                      (max_observation (params s))),
            group := Some (Applicant.group new), group_id := Some k,
            will_default := Some (Applicant.will_default new)\<rparr>"
proof -
  let ?c = "bank_cash (CashUpdater_update s a)"
  have "parameter_update D u lrng (s\<lparr>bank_cash := ?c\<rparr>) a =
          map_sum id (\<lambda>t. t\<lparr>bank_cash := ?c\<rparr>) (parameter_update D u lrng s a)"
    by (rule parameter_update_bank_cash)
  moreover have "s\<lparr>bank_cash := ?c\<rparr> = CashUpdater_update s a"
    by (rule CashUpdater_only_cash [symmetric])
  ultimately have pu: "parameter_update D u lrng (CashUpdater_update s a) a =
          map_sum id (\<lambda>t. t\<lparr>bank_cash := ?c\<rparr>) (parameter_update D u lrng s a)"
    by simp
  from assms obtain s2 where s2: "parameter_update D u lrng s a = Inr s2"
    and smp: "ApplicantSampler_update D (s2\<lparr>bank_cash := ?c\<rparr>) a = Inr s'"
    by (cases "parameter_update D u lrng s a") (auto simp: step_impl_def Let_def pu)
  from parameter_update_frame [OF s2] obtain dist
    where fr: "s2 = s\<lparr>params := (params s)\<lparr>applicant_distribution := dist\<rparr>\<rparr>" by blast
  from smp show ?thesis
  proof (rule ApplicantSampler_InrE)
    fix new r' k
    assume "sample_population D (applicant_distribution (params (s2\<lparr>bank_cash := ?c\<rparr>)))
              (rng (s2\<lparr>bank_cash := ?c\<rparr>)) = (new, r')"
      and "np_argmax (Applicant.group new) = Inr k"
      and "s' = s2\<lparr>bank_cash := ?c\<rparr>\<lparr>rng := r',
            applicant_features := Some (np_clip (features new)
               (min_observation (params (s2\<lparr>bank_cash := ?c\<rparr>)))
               (max_observation (params (s2\<lparr>bank_cash := ?c\<rparr>)))),
            group := Some (Applicant.group new), group_id := Some k,
            will_default := Some (Applicant.will_default new)\<rparr>"
    then show ?thesis
      using s2 fr by (intro that [of s2 new r' k]) auto
  qed
qed

text \<open>
  Claim C4 (order of the three updates). When \<open>_step_impl\<close> returns, the new state is
  determined by the state at the call as follows: the bank cash is the cash update
  for the applicant current at the call (its will-default flag); the parameters are
  those the feedback updater computes from that same applicant (it returns on the
  state at the call, whose cash it neither reads nor writes); and only then are the
  applicant fields overwritten by a sample drawn from the updated population with the
  random source of the state at the call.
\<close>

theorem C4_step_order:
  assumes "step_impl D u lrng s a = Inr s'"
  shows "\<exists>s2 new r' k.
           parameter_update D u lrng s a = Inr s2
         \<and> sample_population D (applicant_distribution (params s2)) (rng s) = (new, r')
         \<and> np_argmax (Applicant.group new) = Inr k
         \<and> s' = s\<lparr>rng := r', params := params s2,
                  bank_cash :=
                    (if a = REJECT then bank_cash s
                     else if State.will_default s = Some True
                       then bank_cash s - loan_amount (params s)
                       else bank_cash s + loan_amount (params s) * interest_rate (params s)),
                  applicant_features :=
                    Some (np_clip (features new) (min_observation (params s))
                            (max_observation (params s))),
                  group := Some (Applicant.group new), group_id := Some k,
                  will_default := Some (Applicant.will_default new)\<rparr>"
  using assms
proof (rule step_impl_InrE)
  fix s2 new r' k
  assume "parameter_update D u lrng s a = Inr s2"
    "sample_population D (applicant_distribution (params s2)) (rng s) = (new, r')"
    "np_argmax (Applicant.group new) = Inr k"
    "s' = s\<lparr>rng := r', params := params s2,
            bank_cash := bank_cash (CashUpdater_update s a),
            applicant_features :=
              Some (np_clip (features new) (min_observation (params s))
                      (max_observation (params s))),
            group := Some (Applicant.group new), group_id := Some k,
            will_default := Some (Applicant.will_default new)\<rparr>"
  then show ?thesis
    by (intro exI [of _ s2] exI [of _ new] exI [of _ r'] exI [of _ k])
       (simp add: CashUpdater_cash)
qed

lemma step_impl_frame:
  assumes "step_impl D u lrng s a = Inr s'"
  shows "bank_cash s' = bank_cash (CashUpdater_update s a)"
    and "loan_amount (params s') = loan_amount (params s)"
    and "interest_rate (params s') = interest_rate (params s)"
    and "State.group s' \<noteq> None" and "group_id s' \<noteq> None"
    and "group_consistent s'"
proof -
  from assms obtain s2 new r' k where
    s2: "parameter_update D u lrng s a = Inr s2"
    and "sample_population D (applicant_distribution (params s2)) (rng s) = (new, r')"
    and k: "np_argmax (Applicant.group new) = Inr k"
    and s': "s' = s\<lparr>rng := r', params := params s2,
            bank_cash := bank_cash (CashUpdater_update s a),
            applicant_features :=
              Some (np_clip (features new) (min_observation (params s))
                      (max_observation (params s))),
            group := Some (Applicant.group new), group_id := Some k,
            will_default := Some (Applicant.will_default new)\<rparr>"
    by (rule step_impl_InrE)
  from parameter_update_frame [OF s2] obtain dist
    where fr: "s2 = s\<lparr>params := (params s)\<lparr>applicant_distribution := dist\<rparr>\<rparr>" by blast
  show "bank_cash s' = bank_cash (CashUpdater_update s a)" using s' by simp
  show "loan_amount (params s') = loan_amount (params s)" using s' fr by simp
  show "interest_rate (params s') = interest_rate (params s)" using s' fr by simp
  show "State.group s' \<noteq> None" "group_id s' \<noteq> None" using s' by simp_all
  show "group_consistent s'" using s' k by (simp add: group_consistent_def)
qed

text \<open>
  Claim C5 (termination boundary). \<open>_is_done\<close> holds exactly when the bank cash is
  strictly below the loan amount; a state whose cash equals the loan amount is not
  done. After a step the state is done exactly when the cash after the cash update
  is strictly below the loan amount, and the environment is then terminated; a
  terminated environment rejects further steps.
\<close>

theorem C5_termination_boundary:
  "(is_done s \<longleftrightarrow> bank_cash s < loan_amount (params s))
   \<and> (bank_cash s = loan_amount (params s) \<longrightarrow> \<not> is_done s)
   \<and> (step_impl D u lrng s a = Inr s' \<longrightarrow>
        (is_done s' \<longleftrightarrow> bank_cash (CashUpdater_update s a) < loan_amount (params s)))
   \<and> (step D u lrng env a = Inr env' \<longrightarrow>
        phase env = Ready
        \<and> (phase env' = Terminated \<longleftrightarrow>
             bank_cash (state env') < loan_amount (params (state env'))))
   \<and> (phase env = Terminated \<longrightarrow> step D u lrng env a = Inl PostTerminationStep)"
proof -
  have "is_done s' \<longleftrightarrow> bank_cash (CashUpdater_update s a) < loan_amount (params s)"
    if "step_impl D u lrng s a = Inr s'"
    using step_impl_frame(1,2) [OF that] by (simp add: is_done_def)
  moreover have "phase env = Ready
      \<and> (phase env' = Terminated \<longleftrightarrow> bank_cash (state env') < loan_amount (params (state env')))"
    if "step D u lrng env a = Inr env'"
    using that by (cases "phase env") (auto simp: step_def is_done_def split: sum.splits if_splits)
  ultimately show ?thesis
    by (simp add: is_done_def step_def)
qed

subsection \<open>Concrete runs of the small population\<close>


lemma demo_check_group_samples:
  "check_group_samples (sample_group demo_sampling) n m (Some [1, 0]) r = Inr (r + n)"
  by (induction n arbitrary: r) (simp_all add: demo_sampling_def np_array_equal_def)

lemma demo_check_argmax_index:
  "check_argmax_index (sample_cluster demo_sampling) 0 demo_clusters r = Inr (r + 3)"
  by (simp add: demo_sampling_def demo_clusters_def np_argmax_def)

lemma demo_diagnostics:
  "diagnostics demo_sampling r (Mixture demo_clusters ws) (Some [1, 0]) = Inr (r + 13)"
  by (simp add: diagnostics_def demo_check_group_samples demo_check_argmax_index)

lemma demo_group_weights: "group_weights (demo_state score wd) 0 = [1/2, 3/10, 1/5]"
  by (simp add: demo_state_def demo_params_def group_weights_def)

lemma demo_shift_mid:
  "CreditShift_update demo_sampling lrng (demo_state [0, 1, 0] True) ACCEPT
     = Inr demo_state_no_mass"
proof -
  let ?s = "demo_state [0, 1, 0] True"
  have 1: "np_argmax_obj (State.group ?s) = Inr 0"
    by (simp add: demo_state_def np_argmax_obj_def np_argmax_def)
  have 2: "group_id ?s = Some 0" by (simp add: demo_state_def)
  have 3: "0 < length (components (applicant_distribution (params ?s)))"
    by (simp add: demo_state_def demo_params_def)
  have 4: "diagnostics demo_sampling lrng (components (applicant_distribution (params ?s)) ! 0)
           (State.group ?s) = Inr (lrng + 13)"
    by (simp add: demo_state_def demo_params_def demo_diagnostics)
  have 5: "np_argmax_obj (applicant_features ?s) = Inr 1"
    by (simp add: demo_state_def np_argmax_obj_def np_argmax_def)
  have 6: "1 < length (group_weights ?s 0)" by (simp add: demo_group_weights)
  have 7: "0 < group_weights ?s 0 ! 1" by (simp add: demo_group_weights)
  have 8: "[4/5, 0, 1/5] = move_mass (group_weights ?s 0) 1
          (target_cluster (State.will_default ?s) 1 (length (group_weights ?s 0)))
          (min (cluster_shift_increment (params ?s)) (group_weights ?s 0 ! 1))"
    by (simp add: demo_group_weights)
       (simp add: demo_state_def demo_params_def target_cluster_def truthy_def move_mass_def)
  have 9: "weights_ok [4/5, 0, 1/5]" by (simp add: weights_ok_def)
  have "CreditShift_update demo_sampling lrng ?s ACCEPT
          = Inr (?s\<lparr>params := set_group_weights (params ?s) 0 [4/5, 0, 1/5]\<rparr>)"
    by (rule CreditShift_accept_InrI [OF 1 2 3 4 5 6 7 8 9])
  also have "?s\<lparr>params := set_group_weights (params ?s) 0 [4/5, 0, 1/5]\<rparr> = demo_state_no_mass"
    by (simp add: demo_state_no_mass_def demo_state_def demo_params_def set_group_weights_def)
  finally show ?thesis .
qed


lemma demo_sample:
  "ApplicantSampler_update demo_sampling s a
     = Inr (s\<lparr>rng := Suc (rng s),
              applicant_features := Some (np_clip (one_hot (rng s mod 3))
                                            (min_observation (params s))
                                            (max_observation (params s))),
              group := Some [1, 0], group_id := Some 0, will_default := Some (odd (rng s))\<rparr>)"
  by (simp add: ApplicantSampler_update_def demo_sampling_def np_argmax_def Let_def)

lemma demo_env_init: "env_init demo_sampling 0 demo_params = Inr demo_env0"
  by (simp add: env_init_def state_init_def demo_sample demo_env0_def demo_state_def
      demo_params_def one_hot_def np_clip_def)

lemma demo_step0: "step demo_sampling NoUpdate lrng demo_env0 ACCEPT = Inr demo_env1"
  by (simp add: step_def step_impl_def parameter_update_def CashUpdater_update_def truthy_def
      demo_sample is_done_def demo_env0_def demo_env1_def demo_state_def demo_params_def
      one_hot_def np_clip_def Let_def)

lemma demo_env1_reachable: "reachable demo_sampling NoUpdate demo_params demo_env1"
  by (rule reachable_step [OF reachable_init [OF demo_env_init] demo_step0])

subsection \<open>Runs, determinism and reachable environments\<close>













lemma state_init_Inr:
  assumes "state_init D fresh ip r = Inr s"
  shows "params s = ip" and "bank_cash s = bank_starting_cash ip" and "group_consistent s"
  using assms
  by (auto simp: state_init_def group_consistent_def elim!: ApplicantSampler_InrE)

lemma step_InrE:
  assumes "step D u lrng env a = Inr env'"
  obtains s' where "phase env = Ready" "step_impl D u lrng (state env) a = Inr s'"
    "env' = env\<lparr>state := s', phase := (if is_done s' then Terminated else Ready)\<rparr>"
  using assms
  by (cases "phase env") (auto simp: step_def split: sum.splits)

lemma reachable_cash_inv:
  assumes "reachable D u ip env"
    and "0 \<le> loan_amount ip" and "0 \<le> interest_rate ip"
    and "loan_amount ip \<le> bank_starting_cash ip"
  shows "initial_params env = ip
         \<and> loan_amount (params (state env)) = loan_amount ip
         \<and> interest_rate (params (state env)) = interest_rate ip
         \<and> 0 \<le> bank_cash (state env)
         \<and> (phase env = Ready \<longrightarrow> loan_amount ip \<le> bank_cash (state env))"
  using assms
proof (induction rule: reachable.induct)
  case (reachable_init fresh env)
  then show ?case
    by (auto simp: env_init_def split: sum.splits dest: state_init_Inr(1,2))
next
  case (reachable_reset env fresh env')
  then show ?case
    by (auto simp: reset_def split: sum.splits dest: state_init_Inr(1,2))
next
  case (reachable_step env lrng action env')
  from reachable_step.hyps(2) obtain s' where r: "phase env = Ready"
    and s': "step_impl D u lrng (state env) action = Inr s'"
    and e': "env' = env\<lparr>state := s', phase := (if is_done s' then Terminated else Ready)\<rparr>"
    by (rule step_InrE)
  have ih: "initial_params env = ip" "loan_amount (params (state env)) = loan_amount ip"
    "interest_rate (params (state env)) = interest_rate ip"
    "loan_amount ip \<le> bank_cash (state env)"
    using reachable_step.IH reachable_step.prems r by simp_all
  have c: "bank_cash s' = bank_cash (CashUpdater_update (state env) action)"
    and l: "loan_amount (params s') = loan_amount ip"
    and i: "interest_rate (params s') = interest_rate ip"
    using step_impl_frame(1,2,3) [OF s'] ih by simp_all
  have m: "0 \<le> loan_amount ip * interest_rate ip"
    using reachable_step.prems by simp
  have nn: "0 \<le> bank_cash s'"
    using c ih m reachable_step.prems by (simp add: CashUpdater_cash)
  show ?case
    using e' ih l i nn by (simp add: is_done_def)
qed

text \<open>
  Claim C7, as amended. When the initial parameters have a non-negative loan amount, a
  non-negative interest rate and a starting cash of at least the loan amount, the bank
  cash of every reachable environment is at least 0, and at least the loan amount
  while the environment is ready. (No updater compares the cash with \<open>max_cash\<close>, which
  is not an upper bound: see the counterexample.)
\<close>

theorem C7_cash_nonnegative:
  assumes "reachable D u ip env"
    and "0 \<le> loan_amount ip" and "0 \<le> interest_rate ip"
    and "loan_amount ip \<le> bank_starting_cash ip"
  shows "0 \<le> bank_cash (state env)
         \<and> (phase env = Ready \<longrightarrow> loan_amount ip \<le> bank_cash (state env))"
  using reachable_cash_inv [OF assms] by simp

text \<open>
  Claim C7 as stated fails: from starting cash 10000 with \<open>max_cash\<close> 10000, accepting
  one repaying applicant of a loan of 1000 at interest rate 0.1 gives cash 10100.
\<close>

theorem C7_counterexample:
  "reachable demo_sampling NoUpdate demo_params demo_env1
   \<and> \<not> (0 \<le> bank_cash (state demo_env1)
        \<and> bank_cash (state demo_env1) \<le> max_cash (params (state demo_env1)))"
  using demo_env1_reachable
  by (simp add: demo_env1_def demo_state_def demo_params_def)

theorem C7_witness:
  "reachable demo_sampling NoUpdate demo_params demo_env1
   \<and> 0 \<le> loan_amount demo_params \<and> 0 \<le> interest_rate demo_params
   \<and> loan_amount demo_params \<le> bank_starting_cash demo_params
   \<and> 0 \<le> bank_cash (state demo_env1) \<and> phase demo_env1 = Ready
   \<and> loan_amount demo_params \<le> bank_cash (state demo_env1)"
proof -
  have 1: "0 \<le> loan_amount demo_params" by (simp add: demo_params_def)
  have 2: "0 \<le> interest_rate demo_params" by (simp add: demo_params_def)
  have 3: "loan_amount demo_params \<le> bank_starting_cash demo_params"
    by (simp add: demo_params_def)
  have 4: "phase demo_env1 = Ready" by (simp add: demo_env1_def)
  show ?thesis
    using demo_env1_reachable 1 2 3 4 C7_cash_nonnegative [OF demo_env1_reachable 1 2 3]
    by simp
qed

lemma reachable_group_consistent:
  assumes "reachable D u ip env"
  shows "group_consistent (state env)"
  using assms
proof (induction rule: reachable.induct)
  case (reachable_init fresh env)
  then show ?case
    by (auto simp: env_init_def split: sum.splits dest: state_init_Inr(3))
next
  case (reachable_reset env fresh env')
  then show ?case
    by (auto simp: reset_def split: sum.splits dest: state_init_Inr(3))
next
  case (reachable_step env lrng action env')
  from reachable_step.hyps(2) show ?case
    by (rule step_InrE) (simp add: step_impl_frame(6))
qed

text \<open>
  Claim C8 (group consistency). In every reachable environment whose state has both
  the group vector and the group index set, the index is the \<open>argmax\<close> of the vector.
  The applicant sampler, the only updater that assigns to either, sets both and sets
  them consistently; the cash updater and the credit shift leave both as they are, and
  the credit shift returns for an accepted applicant only when they agree.
\<close>

theorem C8_group_consistency:
  "(reachable D u ip env \<longrightarrow>
      (\<forall>gv k. State.group (state env) = Some gv \<and> group_id (state env) = Some k
          \<longrightarrow> np_argmax gv = Inr k))
   \<and> (ApplicantSampler_update D s a = Inr s' \<longrightarrow>
        (\<exists>gv k. State.group s' = Some gv \<and> group_id s' = Some k \<and> np_argmax gv = Inr k))
   \<and> State.group (CashUpdater_update s b) = State.group s
   \<and> group_id (CashUpdater_update s b) = group_id s
   \<and> (CreditShift_update D lrng s b = Inr s'' \<longrightarrow>
        State.group s'' = State.group s \<and> group_id s'' = group_id s)
   \<and> (CreditShift_update D lrng s ACCEPT = Inr s'' \<longrightarrow>
        (\<exists>k. group_id s = Some k \<and> np_argmax_obj (State.group s) = Inr k))"
proof (intro conjI impI allI)
  fix gv k
  assume "reachable D u ip env"
    and "State.group (state env) = Some gv \<and> group_id (state env) = Some k"
  then show "np_argmax gv = Inr k"
    using reachable_group_consistent [of D u ip env] by (simp add: group_consistent_def)
next
  assume "ApplicantSampler_update D s a = Inr s'"
  then show "\<exists>gv k. State.group s' = Some gv \<and> group_id s' = Some k \<and> np_argmax gv = Inr k"
    by (rule ApplicantSampler_InrE) simp
next
  show "State.group (CashUpdater_update s b) = State.group s"
    by (simp add: CashUpdater_update_def Let_def)
  show "group_id (CashUpdater_update s b) = group_id s"
    by (simp add: CashUpdater_update_def Let_def)
next
  assume h: "CreditShift_update D lrng s b = Inr s''"
  from CreditShift_frame [OF h] show "State.group s'' = State.group s" by auto
  from CreditShift_frame [OF h] show "group_id s'' = group_id s" by auto
next
  assume "CreditShift_update D lrng s ACCEPT = Inr s''"
  then show "\<exists>k. group_id s = Some k \<and> np_argmax_obj (State.group s) = Inr k"
    by (rule CreditShift_accept_InrE) simp
qed

theorem C8_witness:
  "reachable demo_sampling NoUpdate demo_params demo_env1
   \<and> State.group (state demo_env1) = Some [1, 0] \<and> group_id (state demo_env1) = Some 0
   \<and> np_argmax [1, 0 :: int] = Inr 0
   \<and> ApplicantSampler_update demo_sampling (state demo_env0) ACCEPT
       = Inr ((state demo_env0)\<lparr>rng := 2, applicant_features := Some [0, 1, 0],
                will_default := Some True\<rparr>)
   \<and> CreditShift_update demo_sampling 0 (demo_state [0, 1, 0] True) ACCEPT
       = Inr demo_state_no_mass
   \<and> group_id (demo_state [0, 1, 0] True) = Some 0
   \<and> np_argmax_obj (State.group (demo_state [0, 1, 0] True)) = Inr 0"
proof -
  have g: "State.group (state demo_env1) = Some [1, 0]" "group_id (state demo_env1) = Some 0"
    by (simp_all add: demo_env1_def demo_state_def)
  have a: "ApplicantSampler_update demo_sampling (state demo_env0) ACCEPT
       = Inr ((state demo_env0)\<lparr>rng := 2, applicant_features := Some [0, 1, 0],
                will_default := Some True\<rparr>)"
    by (simp add: demo_sample demo_env0_def demo_state_def demo_params_def one_hot_def
        np_clip_def)
  have n: "np_argmax [1, 0 :: int] = Inr 0" by (simp add: np_argmax_def)
  have k: "group_id (demo_state [0, 1, 0] True) = Some 0" by (simp add: demo_state_def)
  have o: "np_argmax_obj (State.group (demo_state [0, 1, 0] True)) = Inr 0"
    by (simp add: demo_state_def np_argmax_obj_def np_argmax_def)
  show ?thesis
    using demo_env1_reachable g a n k o demo_shift_mid [of 0]
      C8_group_consistency [of demo_sampling NoUpdate demo_params demo_env1
        "state demo_env0" ACCEPT
        "(state demo_env0)\<lparr>rng := 2, applicant_features := Some [0, 1, 0],
                will_default := Some True\<rparr>"
        ACCEPT 0 demo_state_no_mass]
      C8_group_consistency [of demo_sampling NoUpdate demo_params demo_env1
        "demo_state [0, 1, 0] True" ACCEPT
        "(state demo_env0)\<lparr>rng := 2, applicant_features := Some [0, 1, 0],
                will_default := Some True\<rparr>"
        ACCEPT 0 demo_state_no_mass]
    by simp
qed

subsection \<open>The claims on concrete inputs\<close>

theorem C1_witness:
  "0 < length (components (applicant_distribution (params (demo_state [0, 1, 0] True))))
   \<and> weights_ok (group_weights (demo_state [0, 1, 0] True) 0)
   \<and> group_weights (state_after (demo_state [0, 1, 0] True)
         (CreditShift_update demo_sampling 0 (demo_state [0, 1, 0] True) ACCEPT)) 0 = [4/5, 0, 1/5]
   \<and> weights_ok [4/5, 0, 1/5]"
proof -
  have h1: "0 < length (components (applicant_distribution (params (demo_state [0, 1, 0] True))))"
    by (simp add: demo_state_def demo_params_def)
  have h2: "weights_ok (group_weights (demo_state [0, 1, 0] True) 0)"
    by (simp add: demo_group_weights weights_ok_def)
  have h3: "group_weights (state_after (demo_state [0, 1, 0] True)
         (CreditShift_update demo_sampling 0 (demo_state [0, 1, 0] True) ACCEPT)) 0 = [4/5, 0, 1/5]"
    by (simp add: demo_shift_mid state_after_def)
       (simp add: demo_state_no_mass_def demo_state_def group_weights_def)
  show ?thesis
    using h1 h2 h3 C1_mass_conservation [OF h1 h2, of demo_sampling 0] by simp
qed

lemma spec_shift_mass3:
  "spec_shift_mass [a, b, c] i j m =
     [a - (if i = 0 then m else 0) + (if j = 0 then m else 0),
      b - (if i = 1 then m else 0) + (if j = 1 then m else 0),
      c - (if i = 2 then m else 0) + (if j = 2 then m else 0)]"
proof -
  have "[0..<length [a, b, c]] = [0, 1, 2]" by (simp add: upt_rec)
  then show ?thesis by (simp add: spec_shift_mass_def)
qed

theorem C2_witness:
  "applicant_features (demo_state [0, 1, 0] True) = Some [0, 1, 0]
   \<and> np_argmax [0, 1, 0 :: real] = Inr 1
   \<and> group_id (demo_state [0, 1, 0] True) = Some 0
   \<and> State.will_default (demo_state [0, 1, 0] True) = Some True
   \<and> State.group (demo_state [0, 1, 0] True) = Some [1, 0]
   \<and> np_argmax [1, 0 :: int] = Inr 0
   \<and> diagnostics demo_sampling 0
        (components (applicant_distribution (params (demo_state [0, 1, 0] True))) ! 0)
        (State.group (demo_state [0, 1, 0] True)) = Inr 13
   \<and> group_weights (demo_state [0, 1, 0] True) 0 = [1/2, 3/10, 1/5]
   \<and> weights_ok [1/2, 3/10, 1/5]
   \<and> cluster_shift_increment (params (demo_state [0, 1, 0] True)) = 4/10
   \<and> spec_target True 1 3 = 0
   \<and> spec_shift_mass [1/2, 3/10, 1/5] 1 0 (3/10) = [4/5, 0, 1/5]
   \<and> CreditShift_update demo_sampling 0 (demo_state [0, 1, 0] True) ACCEPT
        = Inr ((demo_state [0, 1, 0] True)\<lparr>params :=
             set_group_weights (params (demo_state [0, 1, 0] True)) 0 [4/5, 0, 1/5]\<rparr>)
   \<and> group_weights demo_state_no_mass 0 = [4/5, 0, 1/5]
   \<and> CreditShift_update demo_sampling 0 (demo_state [0, 1, 0] True) REJECT
        = Inr (demo_state [0, 1, 0] True)"
proof -
  let ?s = "demo_state [0, 1, 0] True"
  have h1: "applicant_features ?s = Some [0, 1, 0]" by (simp add: demo_state_def)
  have h2: "np_argmax [0, 1, 0 :: real] = Inr 1" by (simp add: np_argmax_def)
  have h3: "group_id ?s = Some 0" by (simp add: demo_state_def)
  have h4: "State.will_default ?s = Some True" by (simp add: demo_state_def)
  have h5: "State.group ?s = Some [1, 0]" by (simp add: demo_state_def)
  have h6: "np_argmax [1, 0 :: int] = Inr 0" by (simp add: np_argmax_def)
  have h7: "diagnostics demo_sampling 0
        (components (applicant_distribution (params ?s)) ! 0) (State.group ?s) = Inr 13"
    by (simp add: demo_state_def demo_params_def demo_diagnostics)
  have w: "group_weights ?s 0 = [1/2, 3/10, 1/5]" by (rule demo_group_weights)
  have h8: "weights_ok [1/2, 3/10, 1/5]" by (simp add: weights_ok_def)
  have h9: "cluster_shift_increment (params ?s) = 4/10"
    by (simp add: demo_state_def demo_params_def)
  have t: "spec_target True 1 3 = 0" by (simp add: spec_target_def)
  have m: "spec_shift_mass [1/2, 3/10, 1/5] 1 0 (3/10) = [4/5, 0, 1/5 :: real]"
    by (simp add: spec_shift_mass3)
  have n: "group_weights demo_state_no_mass 0 = [4/5, 0, 1/5]"
    by (simp add: demo_state_no_mass_def demo_state_def group_weights_def)
  have l: "0 < length (components (applicant_distribution (params ?s)))"
    by (simp add: demo_state_def demo_params_def)
  show ?thesis
    using h1 h2 h3 h4 h5 h6 h7 w h8 h9 t m n l demo_shift_mid [of 0]
      C2_credit_shift [OF h1 h2 h3 h4, of demo_sampling 0 demo_state_no_mass "[1, 0]" 13]
    by simp
qed

theorem C3_witness:
  "State.will_default (demo_state [0, 1, 0] False) = Some False
   \<and> State.will_default (demo_state [0, 1, 0] True) = Some True
   \<and> bank_cash (demo_state [0, 1, 0] True) = 10000
   \<and> loan_amount (params (demo_state [0, 1, 0] True)) = 1000
   \<and> interest_rate (params (demo_state [0, 1, 0] True)) = 1 / 10
   \<and> bank_cash (CashUpdater_update (demo_state [0, 1, 0] False) ACCEPT) = 10100
   \<and> bank_cash (CashUpdater_update (demo_state [0, 1, 0] True) ACCEPT) = 9000
   \<and> bank_cash (CashUpdater_update (demo_state [0, 1, 0] True) REJECT) = 10000"
  using C3_cash_update [of "demo_state [0, 1, 0] False"]
    C3_cash_update [of "demo_state [0, 1, 0] True"]
  by (simp add: demo_state_def demo_params_def)

theorem C9_witness:
  "State.group demo_state_no_mass = Some [1, 0] \<and> np_argmax [1, 0 :: int] = Inr 0
   \<and> group_id demo_state_no_mass = Some 0
   \<and> applicant_features demo_state_no_mass = Some [0, 1, 0]
   \<and> np_argmax [0, 1, 0 :: real] = Inr 1
   \<and> group_weights demo_state_no_mass 0 ! 1 = 0
   \<and> CreditShift_update demo_sampling 0 demo_state_no_mass ACCEPT = Inl (AssertionError NoMass)
   \<and> 0 < group_weights (demo_state [0, 1, 0] True) 0 ! 1
   \<and> CreditShift_update demo_sampling 0 (demo_state [0, 1, 0] True) ACCEPT
        \<noteq> Inl (AssertionError NoMass)"
proof -
  have a1: "State.group demo_state_no_mass = Some [1, 0]"
    by (simp add: demo_state_no_mass_def demo_state_def)
  have a2: "np_argmax [1, 0 :: int] = Inr 0" by (simp add: np_argmax_def)
  have a3: "group_id demo_state_no_mass = Some 0"
    by (simp add: demo_state_no_mass_def demo_state_def)
  have a4: "0 < length (components (applicant_distribution (params demo_state_no_mass)))"
    by (simp add: demo_state_no_mass_def demo_state_def)
  have a5: "applicant_features demo_state_no_mass = Some [0, 1, 0]"
    by (simp add: demo_state_no_mass_def demo_state_def)
  have a6: "np_argmax [0, 1, 0 :: real] = Inr 1" by (simp add: np_argmax_def)
  have w: "group_weights demo_state_no_mass 0 = [4/5, 0, 1/5]"
    by (simp add: demo_state_no_mass_def demo_state_def group_weights_def)
  have a7: "1 < length (group_weights demo_state_no_mass 0)" by (simp add: w)
  have z: "group_weights demo_state_no_mass 0 ! 1 = 0" by (simp add: w)
  have d: "diagnostics demo_sampling 0
             (components (applicant_distribution (params demo_state_no_mass)) ! 0)
             (State.group demo_state_no_mass) = Inr 13"
    by (simp add: demo_state_no_mass_def demo_state_def demo_diagnostics)
  have b1: "State.group (demo_state [0, 1, 0] True) = Some [1, 0]" by (simp add: demo_state_def)
  have b3: "group_id (demo_state [0, 1, 0] True) = Some 0" by (simp add: demo_state_def)
  have b4: "0 < length (components (applicant_distribution (params (demo_state [0, 1, 0] True))))"
    by (simp add: demo_state_def demo_params_def)
  have b5: "applicant_features (demo_state [0, 1, 0] True) = Some [0, 1, 0]"
    by (simp add: demo_state_def)
  have b7: "1 < length (group_weights (demo_state [0, 1, 0] True) 0)"
    by (simp add: demo_group_weights)
  have p: "0 < group_weights (demo_state [0, 1, 0] True) 0 ! 1"
    by (simp add: demo_group_weights)
  show ?thesis
    using a1 a2 a3 a5 a6 z d p
      C9_zero_mass_fails_fast [OF a1 a2 a3 a4 a5 a6 a7, of demo_sampling 0]
      C9_zero_mass_fails_fast [OF b1 a2 b3 b4 b5 a6 b7, of demo_sampling 0]
    by simp
qed

theorem C10_witness:
  "CreditShift_update demo_sampling 0 (demo_state [0, 1, 0] True) ACCEPT = Inr demo_state_no_mass
   \<and> group_id (demo_state [0, 1, 0] True) = Some 0
   \<and> bank_cash demo_state_no_mass = bank_cash (demo_state [0, 1, 0] True)
   \<and> rng demo_state_no_mass = rng (demo_state [0, 1, 0] True)
   \<and> components (applicant_distribution (params demo_state_no_mass)) ! 1
       = components (applicant_distribution (params (demo_state [0, 1, 0] True))) ! 1
   \<and> CreditShift_update demo_sampling 0 ((demo_state [0, 1, 0] True)\<lparr>rng := 7\<rparr>) ACCEPT
        = Inr (demo_state_no_mass\<lparr>rng := 7\<rparr>)"
proof -
  have g: "group_id (demo_state [0, 1, 0] True) = Some 0" by (simp add: demo_state_def)
  show ?thesis
    using g demo_shift_mid [of 0] C10_credit_shift_frame [OF demo_shift_mid [of 0] g]
    by simp
qed

lemma demo_step_impl:
  "step_impl demo_sampling CreditShift 0 (demo_state [0, 1, 0] True) ACCEPT
     = Inr (demo_state_no_mass\<lparr>rng := 1, bank_cash := 9000,
              applicant_features := Some [1, 0, 0], will_default := Some False\<rparr>)"
proof -
  let ?s = "demo_state [0, 1, 0] True"
  have c: "CashUpdater_update ?s ACCEPT = ?s\<lparr>bank_cash := 9000\<rparr>"
    by (simp add: CashUpdater_update_def truthy_def demo_state_def demo_params_def)
  have p: "parameter_update demo_sampling CreditShift 0 (?s\<lparr>bank_cash := 9000\<rparr>) ACCEPT
             = Inr (demo_state_no_mass\<lparr>bank_cash := 9000\<rparr>)"
    by (simp add: parameter_update_def CreditShift_bank_cash demo_shift_mid)
  have a: "ApplicantSampler_update demo_sampling (demo_state_no_mass\<lparr>bank_cash := 9000\<rparr>) ACCEPT
             = Inr (demo_state_no_mass\<lparr>rng := 1, bank_cash := 9000,
                      applicant_features := Some [1, 0, 0], will_default := Some False\<rparr>)"
    by (simp add: demo_sample demo_state_no_mass_def demo_state_def demo_params_def
        one_hot_def np_clip_def)
  show ?thesis by (simp add: step_impl_def c p a)
qed

theorem C4_witness:
  "step_impl demo_sampling CreditShift 0 (demo_state [0, 1, 0] True) ACCEPT
     = Inr (demo_state_no_mass\<lparr>rng := 1, bank_cash := 9000,
              applicant_features := Some [1, 0, 0], will_default := Some False\<rparr>)
   \<and> parameter_update demo_sampling CreditShift 0 (demo_state [0, 1, 0] True) ACCEPT
       = Inr demo_state_no_mass"
  using demo_step_impl C4_step_order [OF demo_step_impl]
  by (simp add: parameter_update_def demo_shift_mid)

lemma demo_step_boundary:
  "step demo_sampling NoUpdate 0
        \<lparr>initial_params = demo_params,
         state = (demo_state [0, 1, 0] True)\<lparr>bank_cash := 1000\<rparr>, phase = Ready\<rparr> ACCEPT
      = Inr \<lparr>initial_params = demo_params,
             state = (demo_state [1, 0, 0] False)\<lparr>rng := 1, bank_cash := 0\<rparr>,
             phase = Terminated\<rparr>"
  by (simp add: step_def step_impl_def parameter_update_def CashUpdater_update_def truthy_def
      demo_sample is_done_def demo_state_def demo_params_def one_hot_def np_clip_def Let_def)

theorem C5_witness:
  "bank_cash ((demo_state [0, 1, 0] True)\<lparr>bank_cash := 1000\<rparr>)
     = loan_amount (params ((demo_state [0, 1, 0] True)\<lparr>bank_cash := 1000\<rparr>))
   \<and> \<not> is_done ((demo_state [0, 1, 0] True)\<lparr>bank_cash := 1000\<rparr>)
   \<and> step demo_sampling NoUpdate 0
        \<lparr>initial_params = demo_params,
         state = (demo_state [0, 1, 0] True)\<lparr>bank_cash := 1000\<rparr>, phase = Ready\<rparr> ACCEPT
      = Inr \<lparr>initial_params = demo_params,
             state = (demo_state [1, 0, 0] False)\<lparr>rng := 1, bank_cash := 0\<rparr>,
             phase = Terminated\<rparr>
   \<and> step demo_sampling NoUpdate 0
        \<lparr>initial_params = demo_params,
         state = (demo_state [1, 0, 0] False)\<lparr>rng := 1, bank_cash := 0\<rparr>,
         phase = Terminated\<rparr> ACCEPT
      = Inl PostTerminationStep"
  using demo_step_boundary
    C5_termination_boundary [of "(demo_state [0, 1, 0] True)\<lparr>bank_cash := 1000\<rparr>"
        demo_sampling NoUpdate 0 ACCEPT
        "(demo_state [1, 0, 0] False)\<lparr>rng := 1, bank_cash := 0\<rparr>"
        "\<lparr>initial_params = demo_params,
          state = (demo_state [0, 1, 0] True)\<lparr>bank_cash := 1000\<rparr>, phase = Ready\<rparr>"
        "\<lparr>initial_params = demo_params,
          state = (demo_state [1, 0, 0] False)\<lparr>rng := 1, bank_cash := 0\<rparr>,
          phase = Terminated\<rparr>"]
    C5_termination_boundary [of "(demo_state [0, 1, 0] True)\<lparr>bank_cash := 1000\<rparr>"
        demo_sampling NoUpdate 0 ACCEPT
        "(demo_state [1, 0, 0] False)\<lparr>rng := 1, bank_cash := 0\<rparr>"
        "\<lparr>initial_params = demo_params,
          state = (demo_state [1, 0, 0] False)\<lparr>rng := 1, bank_cash := 0\<rparr>,
          phase = Terminated\<rparr>"
        "\<lparr>initial_params = demo_params,
          state = (demo_state [1, 0, 0] False)\<lparr>rng := 1, bank_cash := 0\<rparr>,
          phase = Terminated\<rparr>"]
  by (simp add: demo_state_def demo_params_def)





















end
